theory Spec2Isabelle
  imports Main "HOL-Library.Word"
begin

section \<open>Deferred logging: the header \<^verbatim>\<open>app/inc/logger.h\<close>\<close>

text \<open>
  The header defines the severity enumeration \<^verbatim>\<open>LogLevel\<close>, the class template
  \<^verbatim>\<open>Logger<Derived>\<close> (threshold filter, timestamp capture, argument serialisation
  through the sink \<^verbatim>\<open>Derived\<close>), four families of interned string storage, one per
  severity, the four literal operators that select them, and the four \<^verbatim>\<open>LOG_*\<close>
  macros. The embedding below follows the header top to bottom.
\<close>

subsection \<open>Severity levels\<close>

text \<open>
  \<^verbatim>\<open>enum class LogLevel { DEBUG, INFO, WARNING, ERROR, OFF };\<close>
  The enumerators have the underlying values 0 to 4, and \<^verbatim>\<open><\<close> on the scoped
  enumeration compares these values.
\<close>

datatype LogLevel = DEBUG | INFO | WARNING | ERROR | OFF

fun underlying :: "LogLevel \<Rightarrow> nat" where
  "underlying DEBUG = 0"
| "underlying INFO = 1"
| "underlying WARNING = 2"
| "underlying ERROR = 3"
| "underlying OFF = 4"

instantiation LogLevel :: linorder
begin

definition less_eq_LogLevel :: "LogLevel \<Rightarrow> LogLevel \<Rightarrow> bool" where
  "less_eq_LogLevel a b = (underlying a \<le> underlying b)"

definition less_LogLevel :: "LogLevel \<Rightarrow> LogLevel \<Rightarrow> bool" where
  "less_LogLevel a b = (underlying a < underlying b)"

instance
proof
  fix x y z :: LogLevel
  show "(x < y) = (x \<le> y \<and> \<not> y \<le> x)"
    by (auto simp: less_eq_LogLevel_def less_LogLevel_def)
  show "x \<le> x"
    by (simp add: less_eq_LogLevel_def)
  show "x \<le> y \<Longrightarrow> y \<le> z \<Longrightarrow> x \<le> z"
    by (simp add: less_eq_LogLevel_def)
  show "x \<le> y \<Longrightarrow> y \<le> x \<Longrightarrow> x = y"
    by (cases x; cases y) (simp_all add: less_eq_LogLevel_def)
  show "x \<le> y \<or> y \<le> x"
    by (auto simp: less_eq_LogLevel_def)
qed

end

subsection \<open>Interned strings\<close>

text \<open>
  Each of the four class templates \<^verbatim>\<open>InternedDebugString<char... N>\<close>,
  \<^verbatim>\<open>InternedInfoString\<close>, \<^verbatim>\<open>InternedWarningString\<close> and
  \<^verbatim>\<open>InternedErrorString\<close> has one static data member
  \<^verbatim>\<open>static constexpr char string[] { N... }\<close>. A value of the type below names the
  member of one specialisation, by its template and its character pack; the literal
  operators return a pointer to it. Where the member is stored is decided when the
  program is built (the \<^verbatim>\<open>section\<close> attribute, the instantiation of the template in
  each translation unit, the merging of the instances at link time) and is no part of
  this embedding: the names say which array a handle refers to, not where it lies.
\<close>

datatype StaticString =
    InternedDebugString "char list"
  | InternedInfoString "char list"
  | InternedWarningString "char list"
  | InternedErrorString "char list"

text \<open>\<^verbatim>\<open>struct InternedString { const char* str; };\<close>\<close>

record InternedString =
  str :: StaticString

text \<open>
  The literal operators. \<^verbatim>\<open>C...\<close> are the characters of the literal, and
  \<^verbatim>\<open>T{}\<close> appends the terminating zero:
  \<^verbatim>\<open>return InternedString { decltype(InternedDebugString<C..., T{}>{})::string };\<close>
\<close>

definition operator_intern_debug :: "char list \<Rightarrow> InternedString" where
  "operator_intern_debug C = \<lparr>str = InternedDebugString (C @ [CHR 0x00])\<rparr>"

definition operator_intern_info :: "char list \<Rightarrow> InternedString" where
  "operator_intern_info C = \<lparr>str = InternedInfoString (C @ [CHR 0x00])\<rparr>"

definition operator_intern_warning :: "char list \<Rightarrow> InternedString" where
  "operator_intern_warning C = \<lparr>str = InternedWarningString (C @ [CHR 0x00])\<rparr>"

definition operator_intern_error :: "char list \<Rightarrow> InternedString" where
  "operator_intern_error C = \<lparr>str = InternedErrorString (C @ [CHR 0x00])\<rparr>"

subsection \<open>Arguments and the calls a logger makes\<close>

type_synonym byte = "8 word"

text \<open>
  \<^verbatim>\<open>sendArgument\<close> has two overloads, so what it is handed is of one of two kinds:
  \<^item> \<open>Fixed bs\<close>: a value of a type \<^verbatim>\<open>T\<close> taken by the generic overload, given by
    its object representation \<open>bs\<close>, the \<^verbatim>\<open>sizeof(T)\<close> bytes at \<^verbatim>\<open>&argument\<close>;
  \<^item> \<open>Text s\<close>: a pointer taken by the overload for \<^verbatim>\<open>const char*\<close>, given by the
    characters \<open>s\<close> it points to, up to the terminating zero.
  Which of the two an argument of a call becomes is decided by its static type; see
  \<open>overload_resolution\<close> below.
\<close>

datatype Argument = Fixed "byte list" | Text string

text \<open>
  The logger calls its two collaborators only: the tick provider \<^verbatim>\<open>m_systick\<close> and
  the sink \<^verbatim>\<open>m_derived\<close>. Neither class is part of the header (the sink is the
  template parameter, \<^verbatim>\<open>SysTick\<close> comes from \<^verbatim>\<open>hal/systick.h\<close>), so both are
  observed from outside: every call on either of them is recorded, with its arguments, in
  order. \<open>'tick\<close> is the type \<^verbatim>\<open>getCoarseTickCount\<close> returns.
\<close>

datatype 'tick Call =
    GetCoarseTickCount
  | StartMessage 'tick
  | AppendData "byte list" nat
  | AppendString string
  | FinishMessage

text \<open>
  The state of one logger: its only data member of its own, \<open>m_level\<close>, the count the
  tick provider returns when it is read, and the calls made so far, oldest first.
\<close>

record 'tick Logger =
  m_level :: LogLevel
  m_systick :: 'tick
  calls :: "'tick Call list"

text \<open>
  A logger as its constructor leaves it: \<^verbatim>\<open>LogLevel m_level = LogLevel::DEBUG;\<close>
  bound to a tick provider showing \<open>t\<close>, with the calls \<open>cs\<close> already made on the
  collaborators by others.
\<close>

definition Logger_init :: "'tick \<Rightarrow> 'tick Call list \<Rightarrow> 'tick Logger" where
  "Logger_init t cs = \<lparr>m_level = DEBUG, m_systick = t, calls = cs\<rparr>"

text \<open>
  Modelled from the spec: \<^verbatim>\<open>SysTick::getCoarseTickCount\<close> is declared in
  \<^verbatim>\<open>hal/systick.h\<close>, which is not among the sources. It returns the current coarse
  tick count; the read is recorded.
\<close>

definition getCoarseTickCount :: "'tick Logger \<Rightarrow> 'tick \<times> 'tick Logger" where
  "getCoarseTickCount L = (m_systick L, L\<lparr>calls := calls L @ [GetCoarseTickCount]\<rparr>)"

text \<open>
  Modelled from the spec: the four operations of the sink \<^verbatim>\<open>Derived\<close>, which the
  header only calls. Each call is recorded with its arguments.
\<close>

definition startMessage :: "'tick \<Rightarrow> 'tick Logger \<Rightarrow> 'tick Logger" where
  "startMessage t L = L\<lparr>calls := calls L @ [StartMessage t]\<rparr>"

definition appendData :: "byte list \<Rightarrow> nat \<Rightarrow> 'tick Logger \<Rightarrow> 'tick Logger" where
  "appendData bs n L = L\<lparr>calls := calls L @ [AppendData bs n]\<rparr>"

definition appendString :: "string \<Rightarrow> 'tick Logger \<Rightarrow> 'tick Logger" where
  "appendString s L = L\<lparr>calls := calls L @ [AppendString s]\<rparr>"

definition finishMessage :: "'tick Logger \<Rightarrow> 'tick Logger" where
  "finishMessage L = L\<lparr>calls := calls L @ [FinishMessage]\<rparr>"

subsection \<open>The logger\<close>

text \<open>
  The generic overload passes \<^verbatim>\<open>&argument\<close> and \<^verbatim>\<open>sizeof(T)\<close>; the overload for
  \<^verbatim>\<open>const char*\<close> passes the pointer to \<^verbatim>\<open>appendString\<close>.
\<close>

fun sendArgument :: "Argument \<Rightarrow> 'tick Logger \<Rightarrow> 'tick Logger" where
  "sendArgument (Fixed bs) L = appendData bs (length bs) L"
| "sendArgument (Text s) L = appendString s L"

text \<open>
  An argument as the caller writes it, by its static type once passed by value to
  \<^verbatim>\<open>log\<close> (where an array has become a pointer):
  \<^item> \<open>OfScalarType bs\<close>: a value of an integer, floating, boolean or enumeration type,
    or of another fixed-size type that is no pointer to characters, with its object
    representation;
  \<^item> \<open>OfConstCharPtr p s\<close>: a \<^verbatim>\<open>const char*\<close>, which a string literal and a
    \<^verbatim>\<open>const char[]\<close> become, with the object representation \<open>p\<close> of the pointer
    and the characters \<open>s\<close> it points to;
  \<^item> \<open>OfCharPtr p s\<close>: a \<^verbatim>\<open>char*\<close>, which a \<^verbatim>\<open>char[]\<close> buffer becomes, with
    the same two.
  \<open>overload_resolution\<close> is the choice the compiler makes at the call
  \<^verbatim>\<open>sendArgument(first_arg)\<close> between
  \<^verbatim>\<open>template<typename T> void sendArgument(const T argument)\<close> and
  \<^verbatim>\<open>void sendArgument(const char* argument)\<close>. For a \<^verbatim>\<open>const char*\<close> both match
  exactly and the function that is no template is preferred. For a \<^verbatim>\<open>char*\<close> the
  template matches exactly with \<^verbatim>\<open>T = char*\<close>, while the other overload needs the
  qualification conversion to \<^verbatim>\<open>const char*\<close>, so the template is chosen and is
  handed the pointer itself. For every other type only the template matches.
\<close>

datatype Actual =
    OfScalarType "byte list"
  | OfConstCharPtr "byte list" string
  | OfCharPtr "byte list" string

fun overload_resolution :: "Actual \<Rightarrow> Argument" where
  "overload_resolution (OfScalarType bs) = Fixed bs"
| "overload_resolution (OfConstCharPtr p s) = Text s"
| "overload_resolution (OfCharPtr p s) = Fixed p"

text \<open>
  The two overloads of \<^verbatim>\<open>sendRemainingArguments\<close>: one argument, or a first argument
  and a non-empty rest. There is none for an empty pack.
\<close>

fun sendRemainingArguments :: "Argument \<Rightarrow> Argument list \<Rightarrow> 'tick Logger \<Rightarrow> 'tick Logger" where
  "sendRemainingArguments first_arg [] L = sendArgument first_arg L"
| "sendRemainingArguments first_arg (a # args) L =
     sendRemainingArguments a args (sendArgument first_arg L)"

text \<open>
  \<^verbatim>\<open>log(LogLevel level, T ...args)\<close>. The pack is passed on to
  \<^verbatim>\<open>sendRemainingArguments\<close>, so it has a first element; through the macros that is
  the interned format.
\<close>

definition log :: "LogLevel \<Rightarrow> Argument \<Rightarrow> Argument list \<Rightarrow> 'tick Logger \<Rightarrow> 'tick Logger" where
  "log level first_arg args L =
     (if level < m_level L then L
      else
        let (t, L1) = getCoarseTickCount L;
            L2 = startMessage t L1;
            L3 = sendRemainingArguments first_arg args L2
        in finishMessage L3)"

text \<open>\<^verbatim>\<open>printfFmtValidator\<close> has an empty body.\<close>

definition printfFmtValidator :: "string \<Rightarrow> Argument list \<Rightarrow> 'tick Logger \<Rightarrow> 'tick Logger" where
  "printfFmtValidator fmt args L = L"

text \<open>\<^verbatim>\<open>void setLevel(LogLevel level) { m_level = level; }\<close>\<close>

definition setLevel :: "LogLevel \<Rightarrow> 'tick Logger \<Rightarrow> 'tick Logger" where
  "setLevel level L = L\<lparr>m_level := level\<rparr>"

subsection \<open>The macros\<close>

text \<open>
  Each macro validates the format and logs at its own severity with the literal interned
  by its own operator. The interned string is passed by value as a \<^verbatim>\<open>T\<close> of the
  generic overload; \<open>rep\<close> gives the object representation of an
  \<^verbatim>\<open>InternedString\<close>, which the target fixes, not the header.
\<close>

definition LOG_DEBUG :: "(InternedString \<Rightarrow> byte list) \<Rightarrow> string \<Rightarrow> Argument list \<Rightarrow> 'tick Logger \<Rightarrow> 'tick Logger" where
  "LOG_DEBUG rep fmt args L =
     log DEBUG (Fixed (rep (operator_intern_debug fmt))) args (printfFmtValidator fmt args L)"

definition LOG_INFO :: "(InternedString \<Rightarrow> byte list) \<Rightarrow> string \<Rightarrow> Argument list \<Rightarrow> 'tick Logger \<Rightarrow> 'tick Logger" where
  "LOG_INFO rep fmt args L =
     log INFO (Fixed (rep (operator_intern_info fmt))) args (printfFmtValidator fmt args L)"

definition LOG_WARNING :: "(InternedString \<Rightarrow> byte list) \<Rightarrow> string \<Rightarrow> Argument list \<Rightarrow> 'tick Logger \<Rightarrow> 'tick Logger" where
  "LOG_WARNING rep fmt args L =
     log WARNING (Fixed (rep (operator_intern_warning fmt))) args (printfFmtValidator fmt args L)"

definition LOG_ERROR :: "(InternedString \<Rightarrow> byte list) \<Rightarrow> string \<Rightarrow> Argument list \<Rightarrow> 'tick Logger \<Rightarrow> 'tick Logger" where
  "LOG_ERROR rep fmt args L =
     log ERROR (Fixed (rep (operator_intern_error fmt))) args (printfFmtValidator fmt args L)"

subsection \<open>Sequences of calls on one logger\<close>

text \<open>
  The steps of a client program on one logger: its two public operations that act at run
  time, and, between them, the hardware moving the tick provider's counter to a new
  count (\<open>Tick\<close>, which is the environment's step, not the header's). \<open>run\<close> gives
  the logger after a sequence of steps.
\<close>

datatype 'tick Op =
    Log LogLevel Argument "Argument list"
  | SetLevel LogLevel
  | Tick 'tick

fun step :: "'tick Op \<Rightarrow> 'tick Logger \<Rightarrow> 'tick Logger" where
  "step (Log level first_arg args) L = log level first_arg args L"
| "step (SetLevel level) L = setLevel level L"
| "step (Tick t) L = L\<lparr>m_systick := t\<rparr>"

fun run :: "'tick Op list \<Rightarrow> 'tick Logger \<Rightarrow> 'tick Logger" where
  "run [] L = L"
| "run (op # ops) L = run ops (step op L)"

subsection \<open>The specification's vocabulary\<close>

text \<open>
  These definitions follow the words of the specification, not the code; the theorems
  compare the code with them.

  Step 4 of the logging engine: a fixed-size value is appended by \<open>appendData\<close> with
  its raw bytes and its size, a textual one by \<open>appendString\<close>.
\<close>

fun spec_append_call :: "Argument \<Rightarrow> 'tick Call" where
  "spec_append_call (Fixed bs) = AppendData bs (length bs)"
| "spec_append_call (Text s) = AppendString s"

text \<open>
  The record of one call that is not filtered, steps 1 to 5: the tick is read,
  \<open>startMessage\<close> gets it, the arguments follow in call order, the interned format
  first, and \<open>finishMessage\<close> closes.
\<close>

definition spec_record :: "'tick \<Rightarrow> Argument \<Rightarrow> Argument list \<Rightarrow> 'tick Call list" where
  "spec_record t first_arg args =
     [GetCoarseTickCount, StartMessage t] @ map spec_append_call (first_arg # args)
       @ [FinishMessage]"

text \<open>
  Step 4 again, on the arguments as the caller writes them: the specification's two
  kinds are the fixed-width scalar and the null-terminated text, and a pointer to
  characters of either type is text.
\<close>

fun spec_actual_call :: "Actual \<Rightarrow> 'tick Call" where
  "spec_actual_call (OfScalarType bs) = AppendData bs (length bs)"
| "spec_actual_call (OfConstCharPtr p s) = AppendString s"
| "spec_actual_call (OfCharPtr p s) = AppendString s"

text \<open>The two append operations of the sink.\<close>

fun is_append :: "'tick Call \<Rightarrow> bool" where
  "is_append (AppendData bs n) = True"
| "is_append (AppendString s) = True"
| "is_append c = False"

text \<open>A sequence of steps during which the threshold is not set.\<close>

fun no_SetLevel :: "'tick Op list \<Rightarrow> bool" where
  "no_SetLevel [] = True"
| "no_SetLevel (SetLevel level # ops) = False"
| "no_SetLevel (op # ops) = no_SetLevel ops"

text \<open>
  The thresholds set during a sequence of steps, in order, and the value of the most
  recent \<open>setLevel\<close>, with the default when there was none.
\<close>

fun setLevels :: "'tick Op list \<Rightarrow> LogLevel list" where
  "setLevels [] = []"
| "setLevels (SetLevel level # ops) = level # setLevels ops"
| "setLevels (op # ops) = setLevels ops"

definition spec_threshold :: "'tick Op list \<Rightarrow> LogLevel" where
  "spec_threshold ops = (if setLevels ops = [] then DEBUG else last (setLevels ops))"

section \<open>Properties\<close>

subsection \<open>The order of severities\<close>

lemma not_less_DEBUG: "\<not> level < DEBUG"
  by (simp add: less_LogLevel_def)

lemma not_OFF_less: "\<not> OFF < level"
  by (cases level) (simp_all add: less_LogLevel_def)

lemma less_OFF_iff: "level < OFF \<longleftrightarrow> level \<noteq> OFF"
  by (cases level) (simp_all add: less_LogLevel_def)

subsection \<open>What one call does\<close>

lemma sendArgument_eq:
  "sendArgument a L = L\<lparr>calls := calls L @ [spec_append_call a]\<rparr>"
  by (cases a) (simp_all add: appendData_def appendString_def)

lemma sendRemainingArguments_eq:
  "sendRemainingArguments a args L =
     L\<lparr>calls := calls L @ map spec_append_call (a # args)\<rparr>"
  by (induction args arbitrary: a L) (simp_all add: sendArgument_eq)

lemma log_filtered_eq: "level < m_level L \<Longrightarrow> log level a args L = L"
  by (simp add: log_def)

lemma log_passes_eq:
  "\<not> level < m_level L \<Longrightarrow>
   log level a args L = L\<lparr>calls := calls L @ spec_record (m_systick L) a args\<rparr>"
  by (simp add: log_def getCoarseTickCount_def startMessage_def finishMessage_def
      sendRemainingArguments_eq spec_record_def)

lemma m_level_log: "m_level (log level a args L) = m_level L"
  by (cases "level < m_level L") (simp_all add: log_passes_eq log_filtered_eq)

lemma list_all_is_append: "list_all is_append (map spec_append_call xs)"
proof (induction xs)
  case Nil
  show ?case by simp
next
  case (Cons x xs)
  then show ?case by (cases x) simp_all
qed

lemma overload_resolution_spec:
  "spec_append_call (overload_resolution a) =
     (case a of OfCharPtr p s \<Rightarrow> AppendData p (length p) | _ \<Rightarrow> spec_actual_call a)"
  by (cases a) simp_all

subsection \<open>The threshold along a sequence of steps\<close>

lemma m_level_run:
  "m_level (run ops L) = (if setLevels ops = [] then m_level L else last (setLevels ops))"
proof (induction ops arbitrary: L)
  case Nil
  show ?case by simp
next
  case (Cons op ops)
  show ?case
    by (cases op) (simp_all add: Cons.IH m_level_log setLevel_def)
qed

lemma setLevels_no_SetLevel: "no_SetLevel ops \<Longrightarrow> setLevels ops = []"
proof (induction ops)
  case Nil
  show ?case by simp
next
  case (Cons op ops)
  then show ?case by (cases op) simp_all
qed

lemma m_level_run_no_SetLevel: "no_SetLevel ops \<Longrightarrow> m_level (run ops L) = m_level L"
  by (simp add: m_level_run setLevels_no_SetLevel)

subsection \<open>Filtering\<close>

text \<open>
  C1. A call to \<open>log\<close> at a severity strictly below the current threshold does nothing:
  the logger is as before, and so is the record of calls on its collaborators, which has
  gained no read of the tick count and no \<open>startMessage\<close>, \<open>appendData\<close>,
  \<open>appendString\<close> or \<open>finishMessage\<close>.
\<close>

theorem log_below_threshold_noop:
  "level < m_level L \<Longrightarrow> log level first_arg args L = L"
  by (simp add: log_def)

theorem log_below_threshold_noop_witness:
  "INFO < m_level \<lparr>m_level = ERROR, m_systick = (7 :: 32 word), calls = []\<rparr>
   \<and> log INFO (Fixed [1, 2, 3, 4]) [Text ''abc'']
        \<lparr>m_level = ERROR, m_systick = (7 :: 32 word), calls = []\<rparr>
     = \<lparr>m_level = ERROR, m_systick = 7, calls = []\<rparr>"
  using log_below_threshold_noop
    [of INFO "\<lparr>m_level = ERROR, m_systick = (7 :: 32 word), calls = []\<rparr>"
        "Fixed [1, 2, 3, 4]" "[Text ''abc'']"]
  by (simp add: less_LogLevel_def)

subsection \<open>The record of a call that passes\<close>

text \<open>
  C2. In a call \<open>log(severity, internedFormat, a1, ..., aN)\<close> that is not filtered, the
  calls after \<open>startMessage\<close> should be \<open>appendData\<close> for the handle and then, for
  each argument in call order, \<open>appendData\<close> with the bytes and the size of a
  fixed-size scalar and \<open>appendString\<close> for a text. The order is kept and no argument
  is dropped, and a \<^verbatim>\<open>const char*\<close> goes to \<open>appendString\<close>; but a text of type
  \<^verbatim>\<open>char*\<close> does not. For \<^verbatim>\<open>char buf[] = "abc"; LOG_WARNING(logger, "id=%s", buf);\<close>
  on a new logger the header calls \<open>appendData\<close> with the four bytes of the pointer,
  where the specification has \<open>appendString\<close> with the text.
\<close>

theorem log_char_pointer_sent_as_data:
  "calls (LOG_WARNING (\<lambda>h. [16, 32, 0, 8]) ''id=%s''
            (map overload_resolution [OfCharPtr [0, 1, 0, 32] ''abc''])
            (Logger_init (7 :: 32 word) [])) =
     [GetCoarseTickCount, StartMessage 7, AppendData [16, 32, 0, 8] 4,
      AppendData [0, 1, 0, 32] 4, FinishMessage]
   \<and> [GetCoarseTickCount, StartMessage (7 :: 32 word), AppendData [16, 32, 0, 8] 4]
        @ map spec_actual_call [OfCharPtr [0, 1, 0, 32] ''abc''] @ [FinishMessage] =
     [GetCoarseTickCount, StartMessage 7, AppendData [16, 32, 0, 8] 4,
      AppendString ''abc'', FinishMessage]"
  by (simp add: LOG_WARNING_def printfFmtValidator_def log_def Logger_init_def
      less_LogLevel_def getCoarseTickCount_def startMessage_def appendData_def
      finishMessage_def)

text \<open>
  C3. A call to \<open>log\<close> that is not filtered adds to the record of calls, in this order:
  one read of the tick count, first of all; one \<open>startMessage\<close>, with the count the
  provider showed; calls of \<open>appendData\<close> and \<open>appendString\<close> only; one
  \<open>finishMessage\<close>, last. So the call makes one message span, which it opens once and
  closes once, and reads the tick once.
\<close>

theorem log_one_span:
  "\<not> level < m_level L \<Longrightarrow>
   (\<exists>body. calls (log level first_arg args L) =
       calls L @ [GetCoarseTickCount, StartMessage (m_systick L)] @ body @ [FinishMessage]
     \<and> list_all is_append body)"
proof -
  assume "\<not> level < m_level L"
  then have "calls (log level first_arg args L) =
       calls L @ [GetCoarseTickCount, StartMessage (m_systick L)]
         @ map spec_append_call (first_arg # args) @ [FinishMessage]"
    by (simp add: log_passes_eq spec_record_def)
  moreover have "list_all is_append (map spec_append_call (first_arg # args))"
    by (rule list_all_is_append)
  ultimately show ?thesis by blast
qed

theorem log_one_span_witness:
  "\<not> WARNING < m_level (Logger_init (7 :: 32 word) [])
   \<and> (\<exists>body. calls (log WARNING (Fixed [16, 32, 0, 8]) [Text ''abc'']
                 (Logger_init (7 :: 32 word) [])) =
          [GetCoarseTickCount, StartMessage 7] @ body @ [FinishMessage]
        \<and> list_all is_append body)"
  using log_one_span
    [of WARNING "Logger_init (7 :: 32 word) []" "Fixed [16, 32, 0, 8]" "[Text ''abc'']"]
  by (simp add: Logger_init_def less_LogLevel_def)

subsection \<open>The threshold\<close>

text \<open>
  C6, as stated, fails at the severity \<open>OFF\<close>: after \<open>setLevel(OFF)\<close> a call
  \<open>log(OFF, ...)\<close> reads the tick and sends a whole record, since \<open>OFF < OFF\<close> is
  false.
\<close>

theorem setLevel_OFF_log_OFF_counterexample:
  "calls (setLevel OFF (Logger_init (7 :: 32 word) [])) = []
   \<and> calls (log OFF (Fixed [16, 32, 0, 8]) []
        (setLevel OFF (Logger_init (7 :: 32 word) []))) =
       [GetCoarseTickCount, StartMessage 7, AppendData [16, 32, 0, 8] 4, FinishMessage]"
  by (simp add: log_def setLevel_def Logger_init_def less_LogLevel_def getCoarseTickCount_def
      startMessage_def appendData_def finishMessage_def)

text \<open>
  C6, amended. After \<open>setLevel(OFF)\<close>, and whatever steps follow as long as none of them
  sets the threshold, every call to \<open>log\<close> at a severity other than \<open>OFF\<close> does
  nothing: the logger and the record of calls stay as they are. These severities are
  all that the four macros use, so every macro call does nothing.
\<close>

theorem setLevel_OFF_filters_below_OFF:
  "(no_SetLevel ops \<longrightarrow> level \<noteq> OFF \<longrightarrow>
      log level first_arg args (run ops (setLevel OFF L)) = run ops (setLevel OFF L))
   \<and> (no_SetLevel ops \<longrightarrow>
      LOG_DEBUG rep fmt args (run ops (setLevel OFF L)) = run ops (setLevel OFF L)
      \<and> LOG_INFO rep fmt args (run ops (setLevel OFF L)) = run ops (setLevel OFF L)
      \<and> LOG_WARNING rep fmt args (run ops (setLevel OFF L)) = run ops (setLevel OFF L)
      \<and> LOG_ERROR rep fmt args (run ops (setLevel OFF L)) = run ops (setLevel OFF L))"
proof -
  have filtered: "log level a args (run ops (setLevel OFF L)) = run ops (setLevel OFF L)"
    if "no_SetLevel ops" and "level \<noteq> OFF" for level a
  proof (rule log_filtered_eq)
    from that(1) have "m_level (run ops (setLevel OFF L)) = OFF"
      by (simp add: m_level_run_no_SetLevel setLevel_def)
    with that(2) show "level < m_level (run ops (setLevel OFF L))"
      by (simp add: less_OFF_iff)
  qed
  then show ?thesis
    by (simp add: LOG_DEBUG_def LOG_INFO_def LOG_WARNING_def LOG_ERROR_def
        printfFmtValidator_def)
qed

theorem setLevel_OFF_filters_below_OFF_witness:
  "no_SetLevel [Tick 8, Log OFF (Fixed [1]) [], Tick (9 :: 32 word)] \<and> ERROR \<noteq> OFF
   \<and> log ERROR (Fixed [16, 32, 0, 8]) [Text ''abc'']
        (run [Tick 8, Log OFF (Fixed [1]) [], Tick 9]
           (setLevel OFF (Logger_init (7 :: 32 word) []))) =
      \<lparr>m_level = OFF, m_systick = 9,
       calls = [GetCoarseTickCount, StartMessage 8, AppendData [1] 1, FinishMessage]\<rparr>
   \<and> LOG_ERROR (\<lambda>h. [16, 32, 0, 8]) ''id=%s'' [Text ''abc'']
        (run [Tick 8, Log OFF (Fixed [1]) [], Tick 9]
           (setLevel OFF (Logger_init (7 :: 32 word) []))) =
      \<lparr>m_level = OFF, m_systick = 9,
       calls = [GetCoarseTickCount, StartMessage 8, AppendData [1] 1, FinishMessage]\<rparr>"
proof -
  have state: "run [Tick 8, Log OFF (Fixed [1]) [], Tick 9]
           (setLevel OFF (Logger_init (7 :: 32 word) [])) =
      \<lparr>m_level = OFF, m_systick = 9,
       calls = [GetCoarseTickCount, StartMessage 8, AppendData [1] 1, FinishMessage]\<rparr>"
    by (simp add: log_def setLevel_def Logger_init_def less_LogLevel_def
        getCoarseTickCount_def startMessage_def appendData_def finishMessage_def)
  show ?thesis
    unfolding state
    using setLevel_OFF_filters_below_OFF
      [of "[Tick 8, Log OFF (Fixed [1]) [], Tick (9 :: 32 word)]" ERROR
          "Fixed [16, 32, 0, 8]" "[Text ''abc'']" "Logger_init (7 :: 32 word) []"
          "\<lambda>h. [16, 32, 0, 8]" "''id=%s''", unfolded state]
    by (simp add: state)
qed

text \<open>
  C7. \<open>setLevel\<close> stores the new threshold whatever the old one was, and every later
  call to \<open>log\<close>, as long as no step in between sets the threshold again, is filtered
  against the new value: below it the call does nothing, otherwise it adds its record.
\<close>

theorem setLevel_replaces_threshold:
  "m_level (setLevel new L) = new
   \<and> (no_SetLevel ops \<longrightarrow>
        log level first_arg args (run ops (setLevel new L)) =
          (if level < new then run ops (setLevel new L)
           else (run ops (setLevel new L))
             \<lparr>calls := calls (run ops (setLevel new L))
                @ spec_record (m_systick (run ops (setLevel new L))) first_arg args\<rparr>))"
proof -
  have "m_level (run ops (setLevel new L)) = new" if "no_SetLevel ops"
    using that by (simp add: m_level_run_no_SetLevel setLevel_def)
  then show ?thesis
    by (simp add: log_filtered_eq log_passes_eq setLevel_def)
qed

theorem setLevel_replaces_threshold_witness:
  "m_level (setLevel WARNING \<lparr>m_level = OFF, m_systick = (7 :: 32 word), calls = []\<rparr>)
     = WARNING
   \<and> no_SetLevel [Log DEBUG (Fixed [1]) [Text ''x''], Tick (8 :: 32 word)]
   \<and> log ERROR (Fixed [2]) [Text ''y'']
        (run [Log DEBUG (Fixed [1]) [Text ''x''], Tick 8]
          (setLevel WARNING \<lparr>m_level = OFF, m_systick = (7 :: 32 word), calls = []\<rparr>)) =
      \<lparr>m_level = WARNING, m_systick = 8,
       calls = [GetCoarseTickCount, StartMessage 8, AppendData [2] 1, AppendString ''y'',
                FinishMessage]\<rparr>"
proof -
  have state: "run [Log DEBUG (Fixed [1]) [Text ''x''], Tick 8]
          (setLevel WARNING \<lparr>m_level = OFF, m_systick = (7 :: 32 word), calls = []\<rparr>) =
      \<lparr>m_level = WARNING, m_systick = 8, calls = []\<rparr>"
    by (simp add: log_def setLevel_def less_LogLevel_def)
  show ?thesis
    unfolding state
    using setLevel_replaces_threshold
      [of WARNING "\<lparr>m_level = OFF, m_systick = (7 :: 32 word), calls = []\<rparr>"
          "[Log DEBUG (Fixed [1]) [Text ''x''], Tick 8]" ERROR "Fixed [2]" "[Text ''y'']",
          unfolded state]
    by (simp add: state less_LogLevel_def spec_record_def setLevel_def)
qed

text \<open>
  C8. A newly constructed logger has the threshold \<open>DEBUG\<close>, and until the first
  \<open>setLevel\<close> every call to \<open>log\<close> at a severity other than \<open>OFF\<close> passes the
  filter and adds a whole record.
\<close>

theorem new_logger_threshold_DEBUG:
  "m_level (Logger_init t cs) = DEBUG
   \<and> (no_SetLevel ops \<longrightarrow> level \<noteq> OFF \<longrightarrow>
        log level first_arg args (run ops (Logger_init t cs)) =
          (run ops (Logger_init t cs))
            \<lparr>calls := calls (run ops (Logger_init t cs))
               @ spec_record (m_systick (run ops (Logger_init t cs))) first_arg args\<rparr>)"
proof -
  have init: "m_level (Logger_init t cs) = DEBUG"
    by (simp add: Logger_init_def)
  have "\<not> level < m_level (run ops (Logger_init t cs))" if "no_SetLevel ops"
    using that by (simp add: m_level_run_no_SetLevel init not_less_DEBUG)
  with init show ?thesis
    by (simp add: log_passes_eq)
qed

theorem new_logger_threshold_DEBUG_witness:
  "m_level (Logger_init (7 :: 32 word) []) = DEBUG
   \<and> no_SetLevel [Log ERROR (Fixed [9]) [], Tick (8 :: 32 word)] \<and> INFO \<noteq> OFF
   \<and> log INFO (Fixed [16, 32, 0, 8]) [Fixed [42, 0, 0, 0]]
        (run [Log ERROR (Fixed [9]) [], Tick 8] (Logger_init (7 :: 32 word) [])) =
      \<lparr>m_level = DEBUG, m_systick = 8,
       calls = [GetCoarseTickCount, StartMessage 7, AppendData [9] 1, FinishMessage,
                GetCoarseTickCount, StartMessage 8, AppendData [16, 32, 0, 8] 4,
                AppendData [42, 0, 0, 0] 4, FinishMessage]\<rparr>"
proof -
  have state: "run [Log ERROR (Fixed [9]) [], Tick 8] (Logger_init (7 :: 32 word) []) =
      \<lparr>m_level = DEBUG, m_systick = 8,
       calls = [GetCoarseTickCount, StartMessage 7, AppendData [9] 1, FinishMessage]\<rparr>"
    by (simp add: log_def Logger_init_def less_LogLevel_def getCoarseTickCount_def
        startMessage_def appendData_def finishMessage_def)
  show ?thesis
    unfolding state
    using new_logger_threshold_DEBUG
      [of "7 :: 32 word" "[]" "[Log ERROR (Fixed [9]) [], Tick 8]" INFO
          "Fixed [16, 32, 0, 8]" "[Fixed [42, 0, 0, 0]]", unfolded state]
    by (simp add: state spec_record_def Logger_init_def)
qed

text \<open>
  C9. A call to \<open>log\<close> at the severity \<open>OFF\<close> is not filtered, whatever the
  threshold, \<open>OFF\<close> included: it reads the tick and adds a whole record.
\<close>

theorem log_OFF_never_filtered:
  "log OFF first_arg args L =
     L\<lparr>calls := calls L @ [GetCoarseTickCount, StartMessage (m_systick L)]
          @ map spec_append_call (first_arg # args) @ [FinishMessage]\<rparr>"
  using log_passes_eq [of OFF L first_arg args]
  by (simp add: not_OFF_less spec_record_def)

text \<open>
  C10. A call to \<open>log\<close> leaves the threshold as it is, filtered or not. So after any
  sequence of steps on a newly constructed logger the threshold, which the next call
  observes, is the value of the most recent \<open>setLevel\<close>, or \<open>DEBUG\<close> if there was
  none.
\<close>

theorem threshold_changed_only_by_setLevel:
  "m_level (log level first_arg args L) = m_level L
   \<and> m_level (run ops (Logger_init t cs)) = spec_threshold ops"
  by (simp add: m_level_log m_level_run spec_threshold_def Logger_init_def)

end
